theory Spec2Isabelle
  imports Main
begin

section \<open>Values, errors and the observable trace\<close>

text \<open>
  The bus stores values of Python type \<open>Any\<close>. The fragment modelled here has the absent
  sentinel \<open>None\<close>, the unbounded integers and, as a representative of the values that are
  not numbers, the strings. \<open>write\<close> validates nothing, so every one of them can be stored.
\<close>

datatype pyval = PyNone | PyInt int | PyStr string

datatype py_error = TypeError

text \<open>
  The messages that \<open>run_test\<close> logs at info and error level, in the order of their
  appearance in the source.
\<close>

datatype message =
    Banner
  | Step1Banner
  | Step1Passed
  | Step1Failed
  | Step2Banner
  | Step2Passed
  | Step2Failed

text \<open>
  Every call of the \<open>logging\<close> module is an event: \<open>WRITE\<close>, \<open>READ\<close> and \<open>SLEEP\<close> are the
  three debug lines of the abstraction layer, \<open>INFO\<close> and \<open>ERROR\<close> the lines of the scenario.
  The pause of \<open>time.sleep\<close> itself has no other effect on the state.
\<close>

datatype event =
    WRITE string pyval
  | READ string pyval
  | SLEEP int
  | INFO message
  | ERROR message

text \<open>
  The state of the process: the dictionary of the singleton bus and what has been logged.
\<close>

record world =
  signals :: "string \<rightharpoonup> pyval"
  journal :: "event list"

definition logging_debug :: "event \<Rightarrow> world \<Rightarrow> world" where
  "logging_debug e w = w\<lparr>journal := journal w @ [e]\<rparr>"

definition logging_info :: "message \<Rightarrow> world \<Rightarrow> world" where
  "logging_info m w = w\<lparr>journal := journal w @ [INFO m]\<rparr>"

definition logging_error :: "message \<Rightarrow> world \<Rightarrow> world" where
  "logging_error m w = w\<lparr>journal := journal w @ [ERROR m]\<rparr>"

text \<open>Python's \<open>==\<close> on the modelled values: never raises, \<open>None == 0\<close> is false.\<close>

definition py_eq :: "pyval \<Rightarrow> pyval \<Rightarrow> bool" where
  "py_eq a b = (a = b)"

text \<open>
  Python's \<open>a <= b\<close> with an integer on the right: an ordering comparison of \<open>None\<close> or of
  a string with an integer raises \<open>TypeError\<close>.
\<close>

fun py_le_int :: "pyval \<Rightarrow> int \<Rightarrow> py_error + bool" where
  "py_le_int (PyInt a) b = Inr (a \<le> b)"
| "py_le_int PyNone b = Inl TypeError"
| "py_le_int (PyStr s) b = Inl TypeError"

section \<open>Abstraction layer\<close>

definition seeded_signals :: "string \<rightharpoonup> pyval" where
  "seeded_signals =
     [''CruiseControlActive'' \<mapsto> PyInt 0,
      ''CruiseControlEnabledSwitch'' \<mapsto> PyInt 0,
      ''CruiseControlStates'' \<mapsto> PyInt 0,
      ''CruiseControlSetSpeed'' \<mapsto> PyInt 0,
      ''VehicleSpeed'' \<mapsto> PyInt 0]"

text \<open>\<open>_MockBus.__post_init__\<close>: a bus built without a dictionary gets the five seeds.\<close>

definition MockBus_post_init :: "(string \<rightharpoonup> pyval) option \<Rightarrow> (string \<rightharpoonup> pyval)" where
  "MockBus_post_init sg = (case sg of None \<Rightarrow> seeded_signals | Some d \<Rightarrow> d)"

text \<open>The singleton \<open>_BUS = _MockBus()\<close> at the start of the process, nothing logged yet.\<close>

definition BUS :: world where
  "BUS = \<lparr>signals = MockBus_post_init None, journal = []\<rparr>"

definition MockBus_write :: "string \<Rightarrow> pyval \<Rightarrow> world \<Rightarrow> world" where
  "MockBus_write name v w =
     (let w1 = logging_debug (WRITE name v) w
      in w1\<lparr>signals := (signals w1)(name \<mapsto> v)\<rparr>)"

text \<open>\<open>self.signals.get(name)\<close> yields \<open>None\<close> for a key that is not in the dictionary.\<close>

definition MockBus_read :: "string \<Rightarrow> world \<Rightarrow> pyval \<times> world" where
  "MockBus_read name w =
     (let v = (case signals w name of None \<Rightarrow> PyNone | Some x \<Rightarrow> x)
      in (v, logging_debug (READ name v) w))"

definition write_signal :: "string \<Rightarrow> pyval \<Rightarrow> world \<Rightarrow> world" where
  "write_signal name v w = MockBus_write name v w"

definition read_signal :: "string \<Rightarrow> world \<Rightarrow> pyval \<times> world" where
  "read_signal name w = MockBus_read name w"

definition sleep_seconds :: "int \<Rightarrow> world \<Rightarrow> world" where
  "sleep_seconds seconds w = logging_debug (SLEEP seconds) w"

section \<open>High-level actions\<close>

definition DELAY_SHORT :: int where
  "DELAY_SHORT = 2"

definition DELAY_MEDIUM :: int where
  "DELAY_MEDIUM = 4"

definition power_on :: "world \<Rightarrow> world" where
  "power_on w = sleep_seconds DELAY_SHORT (write_signal ''PowerSupply'' (PyInt 1) w)"

definition engine_start :: "world \<Rightarrow> world" where
  "engine_start w = sleep_seconds DELAY_SHORT (write_signal ''EngineStart'' (PyInt 1) w)"

definition increase_gear :: "world \<Rightarrow> world" where
  "increase_gear w = sleep_seconds DELAY_SHORT (write_signal ''GearIncreaseOne'' (PyInt 1) w)"

definition press_acc_pedal :: "int \<Rightarrow> world \<Rightarrow> world" where
  "press_acc_pedal percent w =
     sleep_seconds DELAY_MEDIUM (write_signal ''AccPedal'' (PyInt percent) w)"

definition press_cc_set_button :: "world \<Rightarrow> world" where
  "press_cc_set_button w =
     sleep_seconds DELAY_SHORT (write_signal ''CruiseControlSetButton'' (PyInt 1) w)"

section \<open>Verification predicates\<close>

text \<open>
  Python's \<open>and\<close> evaluates from left to right and stops at the first false operand, so a
  later signal is read (and its read logged) only when all earlier comparisons were true.
\<close>

definition verify_cruise_control_inactive :: "world \<Rightarrow> bool \<times> world" where
  "verify_cruise_control_inactive w0 =
     (let (a, w1) = read_signal ''CruiseControlActive'' w0 in
      if \<not> py_eq a (PyInt 0) then (False, w1) else
      let (b, w2) = read_signal ''CruiseControlEnabledSwitch'' w1 in
      if \<not> py_eq b (PyInt 0) then (False, w2) else
      let (c, w3) = read_signal ''CruiseControlStates'' w2 in
      if \<not> py_eq c (PyInt 0) then (False, w3) else
      let (d, w4) = read_signal ''CruiseControlSetSpeed'' w3 in
      (py_eq d (PyInt 0), w4))"

definition verify_cruise_control_active :: "int \<Rightarrow> world \<Rightarrow> (py_error + bool) \<times> world" where
  "verify_cruise_control_active target_speed_max w0 =
     (let (a, w1) = read_signal ''CruiseControlActive'' w0 in
      if \<not> py_eq a (PyInt 1) then (Inr False, w1) else
      let (b, w2) = read_signal ''CruiseControlEnabledSwitch'' w1 in
      if \<not> py_eq b (PyInt 1) then (Inr False, w2) else
      let (c, w3) = read_signal ''CruiseControlStates'' w2 in
      if \<not> py_eq c (PyInt 6) then (Inr False, w3) else
      let (d, w4) = read_signal ''CruiseControlSetSpeed'' w3 in
      (py_le_int d target_speed_max, w4))"

section \<open>Test scenario\<close>

text \<open>
  \<open>random.randint(a, b)\<close> is library code: it returns \<open>a\<close> plus a number below
  \<open>b - a + 1\<close>. The generator's state is the parameter \<open>entropy\<close>, reduced into that range.
\<close>

definition randint :: "int \<Rightarrow> int \<Rightarrow> nat \<Rightarrow> int" where
  "randint a b entropy = a + int entropy mod (b - a + 1)"

text \<open>
  \<open>run_test\<close> returns \<open>None\<close> (here \<open>Inr ()\<close>) on both of its exits; an exception raised by
  the final predicate would leave it as \<open>Inl\<close>.
\<close>

definition run_test :: "nat \<Rightarrow> world \<Rightarrow> (py_error + unit) \<times> world" where
  "run_test entropy w0 =
     (let w1 = logging_info Banner w0;
          w2 = logging_info Step1Banner w1;
          w3 = power_on w2;
          w4 = engine_start w3;
          (inactive, w5) = verify_cruise_control_inactive w4
      in if inactive then
           (let w6 = logging_info Step1Passed w5;
                w7 = logging_info Step2Banner w6;
                target_speed = randint 30 35 entropy;
                w8 = write_signal ''VehicleSpeed'' (PyInt target_speed) w7;
                w9 = press_acc_pedal 40 w8;
                w10 = increase_gear w9;
                w11 = press_cc_set_button w10;
                (active, w12) = verify_cruise_control_active 35 w11
            in case active of
                 Inl e \<Rightarrow> (Inl e, w12)
               | Inr True \<Rightarrow> (Inr (), logging_info Step2Passed w12)
               | Inr False \<Rightarrow> (Inr (), logging_error Step2Failed w12))
         else (Inr (), logging_error Step1Failed w5))"

section \<open>Histories of bus accesses\<close>

text \<open>
  To speak about names that were never written, a history is a list of calls of the
  abstraction layer, run in order from a given state.
\<close>

datatype bus_call = CallWrite string pyval | CallRead string | CallSleep int

fun run_call :: "bus_call \<Rightarrow> world \<Rightarrow> world" where
  "run_call (CallWrite name v) w = write_signal name v w"
| "run_call (CallRead name) w = snd (read_signal name w)"
| "run_call (CallSleep s) w = sleep_seconds s w"

fun run_calls :: "bus_call list \<Rightarrow> world \<Rightarrow> world" where
  "run_calls [] w = w"
| "run_calls (c # cs) w = run_calls cs (run_call c w)"

fun written_name :: "bus_call \<Rightarrow> string option" where
  "written_name (CallWrite name v) = Some name"
| "written_name (CallRead name) = None"
| "written_name (CallSleep s) = None"

text \<open>The writes that a journal records, oldest first.\<close>

fun writes_of :: "event list \<Rightarrow> (string \<times> pyval) list" where
  "writes_of [] = []"
| "writes_of (WRITE name v # es) = (name, v) # writes_of es"
| "writes_of (READ name v # es) = writes_of es"
| "writes_of (SLEEP s # es) = writes_of es"
| "writes_of (INFO m # es) = writes_of es"
| "writes_of (ERROR m # es) = writes_of es"

section \<open>The signal store\<close>

lemma signals_write_signal:
  "signals (write_signal name v w) = (signals w)(name \<mapsto> v)"
  by (simp add: write_signal_def MockBus_write_def logging_debug_def Let_def)

lemma signals_read_signal:
  "signals (snd (read_signal name w)) = signals w"
  by (simp add: read_signal_def MockBus_read_def logging_debug_def Let_def)

lemma fst_read_signal:
  "fst (read_signal name w) = (case signals w name of None \<Rightarrow> PyNone | Some x \<Rightarrow> x)"
  by (simp add: read_signal_def MockBus_read_def Let_def)

lemma signals_sleep_seconds:
  "signals (sleep_seconds s w) = signals w"
  by (simp add: sleep_seconds_def logging_debug_def)

text \<open>
  C6: reading a signal right after writing it returns the written value, whatever the
  name and the value and whatever the store held before; the written name is a key of
  the store afterwards, so writing a name that was not seeded creates it.
\<close>

theorem write_then_read_identity:
  "fst (read_signal name (write_signal name v w)) = v
   \<and> signals (write_signal name v w) name = Some v
   \<and> name \<in> dom (signals (write_signal name v w))"
  by (simp add: fst_read_signal signals_write_signal)


text \<open>
  The same lemmas about the source's names, and the unfolding sets used below.
\<close>

lemmas action_defs =
  power_on_def engine_start_def increase_gear_def press_acc_pedal_def press_cc_set_button_def
  sleep_seconds_def write_signal_def MockBus_write_def logging_debug_def logging_info_def
  logging_error_def DELAY_SHORT_def DELAY_MEDIUM_def Let_def

lemmas read_defs = read_signal_def MockBus_read_def logging_debug_def Let_def

lemmas seed_defs = BUS_def MockBus_post_init_def seeded_signals_def

lemma writes_of_append:
  "writes_of (xs @ ys) = writes_of xs @ writes_of ys"
  by (induction xs rule: writes_of.induct) simp_all

lemma fst_read_after_read:
  "fst (read_signal n (snd (read_signal m w))) = fst (read_signal n w)"
  by (simp add: fst_read_signal signals_read_signal)

lemma signals_run_call:
  "signals (run_call c w) n =
     (if written_name c = Some n then signals (run_call c w) n else signals w n)"
  by (cases c) (simp_all add: signals_write_signal signals_read_signal signals_sleep_seconds)

lemma signals_run_calls_unwritten:
  "Some n \<notin> written_name ` set cs \<Longrightarrow> signals (run_calls cs w) n = signals w n"
proof (induction cs arbitrary: w)
  case Nil
  then show ?case by simp
next
  case (Cons c cs)
  from Cons.prems have "written_name c \<noteq> Some n" and "Some n \<notin> written_name ` set cs"
    by auto
  with Cons.IH [of "run_call c w"] signals_run_call [of c w n] show ?case
    by simp
qed

text \<open>
  C7: a name that is not among the five seeds and that no call of the history has written
  reads as \<open>None\<close>, which is not the integer 0; the read returns (nothing is raised) and
  does not create the name.
\<close>

theorem read_unwritten_is_absent:
  "name \<notin> {''CruiseControlActive'', ''CruiseControlEnabledSwitch'', ''CruiseControlStates'',
             ''CruiseControlSetSpeed'', ''VehicleSpeed''}
   \<and> Some name \<notin> written_name ` set cs
   \<longrightarrow> fst (read_signal name (run_calls cs BUS)) = PyNone
       \<and> fst (read_signal name (run_calls cs BUS)) \<noteq> PyInt 0
       \<and> signals (snd (read_signal name (run_calls cs BUS))) = signals (run_calls cs BUS)"
  by (simp add: fst_read_signal signals_read_signal signals_run_calls_unwritten seed_defs)

theorem read_unwritten_is_absent_witness:
  "''AccPedal'' \<notin> {''CruiseControlActive'', ''CruiseControlEnabledSwitch'',
       ''CruiseControlStates'', ''CruiseControlSetSpeed'', ''VehicleSpeed''}
   \<and> Some ''AccPedal'' \<notin> written_name `
         set [CallWrite ''PowerSupply'' (PyInt 1), CallRead ''AccPedal'', CallSleep 2]
   \<and> fst (read_signal ''AccPedal''
        (run_calls [CallWrite ''PowerSupply'' (PyInt 1), CallRead ''AccPedal'', CallSleep 2]
           BUS)) = PyNone"
  using read_unwritten_is_absent
    [of "''AccPedal''" "[CallWrite ''PowerSupply'' (PyInt 1), CallRead ''AccPedal'', CallSleep 2]"]
  by simp

section \<open>The two predicates\<close>

lemma fst_verify_inactive:
  "fst (verify_cruise_control_inactive w) =
     (fst (read_signal ''CruiseControlActive'' w) = PyInt 0
      \<and> fst (read_signal ''CruiseControlEnabledSwitch'' w) = PyInt 0
      \<and> fst (read_signal ''CruiseControlStates'' w) = PyInt 0
      \<and> fst (read_signal ''CruiseControlSetSpeed'' w) = PyInt 0)"
  by (simp add: verify_cruise_control_inactive_def py_eq_def split_beta Let_def
      fst_read_after_read)

lemma signals_verify_inactive:
  "signals (snd (verify_cruise_control_inactive w)) = signals w"
  by (simp add: verify_cruise_control_inactive_def py_eq_def split_beta Let_def
      signals_read_signal)

lemma signals_verify_active:
  "signals (snd (verify_cruise_control_active m w)) = signals w"
  by (simp add: verify_cruise_control_active_def py_eq_def split_beta Let_def
      signals_read_signal)

lemma fst_verify_active:
  "fst (verify_cruise_control_active m w) =
     (if fst (read_signal ''CruiseControlActive'' w) = PyInt 1
        \<and> fst (read_signal ''CruiseControlEnabledSwitch'' w) = PyInt 1
        \<and> fst (read_signal ''CruiseControlStates'' w) = PyInt 6
      then py_le_int (fst (read_signal ''CruiseControlSetSpeed'' w)) m
      else Inr False)"
  by (simp add: verify_cruise_control_active_def py_eq_def split_beta Let_def
      fst_read_after_read)

lemma py_le_int_True:
  "py_le_int x m = Inr True \<longleftrightarrow> (\<exists>v. x = PyInt v \<and> v \<le> m)"
  by (cases x) auto

lemma py_le_int_returns:
  "(\<exists>b. py_le_int x m = Inr b) \<longleftrightarrow> (\<exists>v. x = PyInt v)"
  by (cases x) auto

text \<open>
  C1: \<open>verify_cruise_control_active\<close> returns \<open>True\<close> exactly when the store reads
  CruiseControlActive as 1, CruiseControlEnabledSwitch as 1, CruiseControlStates as 6 and
  CruiseControlSetSpeed as an integer that is at most \<open>target_speed_max\<close>. With the first
  three holding, a set speed equal to the maximum gives \<open>True\<close> and a set speed one above
  the maximum gives \<open>False\<close>.
\<close>

theorem verify_cruise_control_active_iff:
  "(fst (verify_cruise_control_active target_speed_max w) = Inr True \<longleftrightarrow>
      fst (read_signal ''CruiseControlActive'' w) = PyInt 1
      \<and> fst (read_signal ''CruiseControlEnabledSwitch'' w) = PyInt 1
      \<and> fst (read_signal ''CruiseControlStates'' w) = PyInt 6
      \<and> (\<exists>v. fst (read_signal ''CruiseControlSetSpeed'' w) = PyInt v \<and> v \<le> target_speed_max))
   \<and> (fst (read_signal ''CruiseControlActive'' w) = PyInt 1
      \<and> fst (read_signal ''CruiseControlEnabledSwitch'' w) = PyInt 1
      \<and> fst (read_signal ''CruiseControlStates'' w) = PyInt 6
      \<longrightarrow> (fst (read_signal ''CruiseControlSetSpeed'' w) = PyInt target_speed_max
             \<longrightarrow> fst (verify_cruise_control_active target_speed_max w) = Inr True)
        \<and> (fst (read_signal ''CruiseControlSetSpeed'' w) = PyInt (target_speed_max + 1)
             \<longrightarrow> fst (verify_cruise_control_active target_speed_max w) = Inr False))"
  by (auto simp add: fst_verify_active py_le_int_True)

theorem verify_cruise_control_active_iff_witness:
  "fst (read_signal ''CruiseControlActive'' (run_calls
       [CallWrite ''CruiseControlActive'' (PyInt 1),
        CallWrite ''CruiseControlEnabledSwitch'' (PyInt 1),
        CallWrite ''CruiseControlStates'' (PyInt 6),
        CallWrite ''CruiseControlSetSpeed'' (PyInt 35)] BUS)) = PyInt 1
   \<and> fst (read_signal ''CruiseControlEnabledSwitch'' (run_calls
       [CallWrite ''CruiseControlActive'' (PyInt 1),
        CallWrite ''CruiseControlEnabledSwitch'' (PyInt 1),
        CallWrite ''CruiseControlStates'' (PyInt 6),
        CallWrite ''CruiseControlSetSpeed'' (PyInt 35)] BUS)) = PyInt 1
   \<and> fst (read_signal ''CruiseControlStates'' (run_calls
       [CallWrite ''CruiseControlActive'' (PyInt 1),
        CallWrite ''CruiseControlEnabledSwitch'' (PyInt 1),
        CallWrite ''CruiseControlStates'' (PyInt 6),
        CallWrite ''CruiseControlSetSpeed'' (PyInt 35)] BUS)) = PyInt 6
   \<and> fst (read_signal ''CruiseControlSetSpeed'' (run_calls
       [CallWrite ''CruiseControlActive'' (PyInt 1),
        CallWrite ''CruiseControlEnabledSwitch'' (PyInt 1),
        CallWrite ''CruiseControlStates'' (PyInt 6),
        CallWrite ''CruiseControlSetSpeed'' (PyInt 35)] BUS)) = PyInt 35
   \<and> fst (verify_cruise_control_active 35 (run_calls
       [CallWrite ''CruiseControlActive'' (PyInt 1),
        CallWrite ''CruiseControlEnabledSwitch'' (PyInt 1),
        CallWrite ''CruiseControlStates'' (PyInt 6),
        CallWrite ''CruiseControlSetSpeed'' (PyInt 35)] BUS)) = Inr True
   \<and> fst (verify_cruise_control_active 34 (run_calls
       [CallWrite ''CruiseControlActive'' (PyInt 1),
        CallWrite ''CruiseControlEnabledSwitch'' (PyInt 1),
        CallWrite ''CruiseControlStates'' (PyInt 6),
        CallWrite ''CruiseControlSetSpeed'' (PyInt 35)] BUS)) = Inr False"
  using
    verify_cruise_control_active_iff [of 35 "run_calls
       [CallWrite ''CruiseControlActive'' (PyInt 1),
        CallWrite ''CruiseControlEnabledSwitch'' (PyInt 1),
        CallWrite ''CruiseControlStates'' (PyInt 6),
        CallWrite ''CruiseControlSetSpeed'' (PyInt 35)] BUS"]
    verify_cruise_control_active_iff [of 34 "run_calls
       [CallWrite ''CruiseControlActive'' (PyInt 1),
        CallWrite ''CruiseControlEnabledSwitch'' (PyInt 1),
        CallWrite ''CruiseControlStates'' (PyInt 6),
        CallWrite ''CruiseControlSetSpeed'' (PyInt 35)] BUS"]
  by (simp add: fst_read_signal signals_write_signal)

text \<open>
  C2: \<open>verify_cruise_control_inactive\<close> returns \<open>True\<close> exactly when the store reads all of
  CruiseControlActive, CruiseControlEnabledSwitch, CruiseControlStates and
  CruiseControlSetSpeed as 0; from a store where it is true, writing any value other than
  0 to any one of the four makes it false.
\<close>

theorem verify_cruise_control_inactive_iff:
  "(fst (verify_cruise_control_inactive w) \<longleftrightarrow>
      fst (read_signal ''CruiseControlActive'' w) = PyInt 0
      \<and> fst (read_signal ''CruiseControlEnabledSwitch'' w) = PyInt 0
      \<and> fst (read_signal ''CruiseControlStates'' w) = PyInt 0
      \<and> fst (read_signal ''CruiseControlSetSpeed'' w) = PyInt 0)
   \<and> (fst (verify_cruise_control_inactive w)
      \<and> name \<in> {''CruiseControlActive'', ''CruiseControlEnabledSwitch'',
                  ''CruiseControlStates'', ''CruiseControlSetSpeed''}
      \<and> v \<noteq> PyInt 0
      \<longrightarrow> \<not> fst (verify_cruise_control_inactive (write_signal name v w)))"
  by (auto simp add: fst_verify_inactive fst_read_signal signals_write_signal)

theorem verify_cruise_control_inactive_iff_witness:
  "fst (verify_cruise_control_inactive BUS)
   \<and> ''CruiseControlStates'' \<in> {''CruiseControlActive'', ''CruiseControlEnabledSwitch'',
                  ''CruiseControlStates'', ''CruiseControlSetSpeed''}
   \<and> PyInt 6 \<noteq> PyInt 0
   \<and> \<not> fst (verify_cruise_control_inactive (write_signal ''CruiseControlStates'' (PyInt 6) BUS))"
  using verify_cruise_control_inactive_iff [of BUS "''CruiseControlStates''" "PyInt 6"]
  by (simp add: fst_read_signal seed_defs)

text \<open>
  C8: when one of the four names that \<open>verify_cruise_control_inactive\<close> checks is not in
  the store, the comparison of what is read for it with 0 is false, and the predicate
  returns \<open>False\<close> (it has no raising branch) without creating the name.
\<close>

theorem inactive_false_on_absent:
  "name \<in> {''CruiseControlActive'', ''CruiseControlEnabledSwitch'',
            ''CruiseControlStates'', ''CruiseControlSetSpeed''}
   \<and> signals w name = None
   \<longrightarrow> py_eq (fst (read_signal name w)) (PyInt 0) = False
       \<and> fst (verify_cruise_control_inactive w) = False
       \<and> signals (snd (verify_cruise_control_inactive w)) = signals w"
  by (auto simp add: fst_verify_inactive fst_read_signal signals_verify_inactive py_eq_def)

theorem inactive_false_on_absent_witness:
  "''CruiseControlActive'' \<in> {''CruiseControlActive'', ''CruiseControlEnabledSwitch'',
            ''CruiseControlStates'', ''CruiseControlSetSpeed''}
   \<and> signals \<lparr>signals = [''CruiseControlEnabledSwitch'' \<mapsto> PyInt 0,
                           ''CruiseControlStates'' \<mapsto> PyInt 0,
                           ''CruiseControlSetSpeed'' \<mapsto> PyInt 0],
                journal = []\<rparr> ''CruiseControlActive'' = None
   \<and> fst (verify_cruise_control_inactive
        \<lparr>signals = [''CruiseControlEnabledSwitch'' \<mapsto> PyInt 0,
                    ''CruiseControlStates'' \<mapsto> PyInt 0,
                    ''CruiseControlSetSpeed'' \<mapsto> PyInt 0],
         journal = []\<rparr>) = False"
  using inactive_false_on_absent [of "''CruiseControlActive''"
        "\<lparr>signals = [''CruiseControlEnabledSwitch'' \<mapsto> PyInt 0,
                    ''CruiseControlStates'' \<mapsto> PyInt 0,
                    ''CruiseControlSetSpeed'' \<mapsto> PyInt 0],
         journal = []\<rparr>"]
  by simp

text \<open>
  Neither predicate changes the signal dictionary, whatever it holds: they only read.
\<close>

lemma predicates_keep_signals:
  "signals (snd (verify_cruise_control_inactive w)) = signals w
   \<and> signals (snd (verify_cruise_control_active target_speed_max w)) = signals w"
  by (simp add: signals_verify_inactive signals_verify_active)

text \<open>
  The stores on which \<open>verify_cruise_control_active\<close> gets as far as a result: one of the
  three equality checks stops the evaluation, or the set speed is an integer.
\<close>

lemma verify_active_returns_iff:
  "(\<exists>b. fst (verify_cruise_control_active target_speed_max w) = Inr b) \<longleftrightarrow>
     fst (read_signal ''CruiseControlActive'' w) \<noteq> PyInt 1
     \<or> fst (read_signal ''CruiseControlEnabledSwitch'' w) \<noteq> PyInt 1
     \<or> fst (read_signal ''CruiseControlStates'' w) \<noteq> PyInt 6
     \<or> (\<exists>v. fst (read_signal ''CruiseControlSetSpeed'' w) = PyInt v)"
  by (auto simp add: fst_verify_active py_le_int_returns)

text \<open>
  C4: both predicates are to return a single boolean and leave the store unchanged on
  every store, also where a checked name is absent. \<open>verify_cruise_control_active\<close> does
  not: on the store reached from the seeds by writing 1, 1 and 6 to the three state
  signals and \<open>None\<close> to CruiseControlSetSpeed, and on a store with the three state
  signals set and no entry for CruiseControlSetSpeed, its last comparison is
  \<open>None <= 35\<close> and it raises \<open>TypeError\<close>, although its docstring has it check that a
  set speed has been stored. On the same two stores
  \<open>verify_cruise_control_inactive\<close> returns \<open>False\<close>, and where an equality check of
  \<open>verify_cruise_control_active\<close> meets an absent name (here CruiseControlStates) that
  predicate returns \<open>False\<close> too. The dictionary is the same after each of these calls.
\<close>

theorem active_raises_on_absent_set_speed:
  "fst (verify_cruise_control_active 35 (run_calls
       [CallWrite ''CruiseControlActive'' (PyInt 1),
        CallWrite ''CruiseControlEnabledSwitch'' (PyInt 1),
        CallWrite ''CruiseControlStates'' (PyInt 6),
        CallWrite ''CruiseControlSetSpeed'' PyNone] BUS)) = Inl TypeError
   \<and> fst (verify_cruise_control_active 35
       \<lparr>signals = [''CruiseControlActive'' \<mapsto> PyInt 1,
                   ''CruiseControlEnabledSwitch'' \<mapsto> PyInt 1,
                   ''CruiseControlStates'' \<mapsto> PyInt 6],
        journal = []\<rparr>) = Inl TypeError
   \<and> fst (verify_cruise_control_inactive (run_calls
       [CallWrite ''CruiseControlActive'' (PyInt 1),
        CallWrite ''CruiseControlEnabledSwitch'' (PyInt 1),
        CallWrite ''CruiseControlStates'' (PyInt 6),
        CallWrite ''CruiseControlSetSpeed'' PyNone] BUS)) = False
   \<and> fst (verify_cruise_control_inactive
       \<lparr>signals = [''CruiseControlActive'' \<mapsto> PyInt 1,
                   ''CruiseControlEnabledSwitch'' \<mapsto> PyInt 1,
                   ''CruiseControlStates'' \<mapsto> PyInt 6],
        journal = []\<rparr>) = False
   \<and> fst (verify_cruise_control_active 35
       \<lparr>signals = [''CruiseControlActive'' \<mapsto> PyInt 1,
                   ''CruiseControlEnabledSwitch'' \<mapsto> PyInt 1,
                   ''CruiseControlSetSpeed'' \<mapsto> PyInt 35],
        journal = []\<rparr>) = Inr False
   \<and> signals (snd (verify_cruise_control_active 35
       \<lparr>signals = [''CruiseControlActive'' \<mapsto> PyInt 1,
                   ''CruiseControlEnabledSwitch'' \<mapsto> PyInt 1,
                   ''CruiseControlStates'' \<mapsto> PyInt 6],
        journal = []\<rparr>))
       = [''CruiseControlActive'' \<mapsto> PyInt 1,
          ''CruiseControlEnabledSwitch'' \<mapsto> PyInt 1,
          ''CruiseControlStates'' \<mapsto> PyInt 6]"
  by (simp add: fst_verify_active fst_verify_inactive fst_read_signal signals_write_signal
      signals_verify_active)

section \<open>The scenario\<close>

lemma verify_inactive_True:
  assumes "fst (verify_cruise_control_inactive w)"
  shows "verify_cruise_control_inactive w =
           (True, w\<lparr>journal := journal w @
              [READ ''CruiseControlActive'' (PyInt 0),
               READ ''CruiseControlEnabledSwitch'' (PyInt 0),
               READ ''CruiseControlStates'' (PyInt 0),
               READ ''CruiseControlSetSpeed'' (PyInt 0)]\<rparr>)"
proof -
  from assms have r:
    "fst (read_signal ''CruiseControlActive'' w) = PyInt 0"
    "fst (read_signal ''CruiseControlEnabledSwitch'' w) = PyInt 0"
    "fst (read_signal ''CruiseControlStates'' w) = PyInt 0"
    "fst (read_signal ''CruiseControlSetSpeed'' w) = PyInt 0"
    by (simp_all add: fst_verify_inactive)
  from r show ?thesis
    by (simp add: verify_cruise_control_inactive_def py_eq_def read_defs)
qed

lemma verify_active_not_active:
  assumes "fst (read_signal ''CruiseControlActive'' w) \<noteq> PyInt 1"
  shows "verify_cruise_control_active m w =
           (Inr False, w\<lparr>journal := journal w @
              [READ ''CruiseControlActive'' (fst (read_signal ''CruiseControlActive'' w))]\<rparr>)"
  using assms by (simp add: verify_cruise_control_active_def py_eq_def read_defs)

lemma journal_verify_inactive_no_writes:
  "writes_of (journal (snd (verify_cruise_control_inactive w))) = writes_of (journal w)"
  by (simp add: verify_cruise_control_inactive_def py_eq_def read_defs writes_of_append)

lemma randint_30_35:
  "30 \<le> randint 30 35 r \<and> randint 30 35 r \<le> 35"
  by (simp add: randint_def)

lemma randint_30_35_onto:
  "30 \<le> t \<Longrightarrow> t \<le> 35 \<Longrightarrow> randint 30 35 (nat (t - 30)) = t"
  by (simp add: randint_def)

lemma run_test_step1_failed:
  assumes "\<not> fst (verify_cruise_control_inactive
             (engine_start (power_on (logging_info Step1Banner (logging_info Banner w)))))"
  shows "run_test r w =
           (Inr (), logging_error Step1Failed (snd (verify_cruise_control_inactive
             (engine_start (power_on (logging_info Step1Banner (logging_info Banner w)))))))"
  using assms by (simp add: run_test_def Let_def split_beta)

text \<open>
  What a run is when Step 1 passes: the four checked signals read 0 then, the Step 2
  actions write none of them, and the final predicate stops at its first comparison.
\<close>

lemma run_test_step1_passed:
  assumes "fst (verify_cruise_control_inactive
             (engine_start (power_on (logging_info Step1Banner (logging_info Banner w)))))"
  shows "run_test r w =
           (Inr (),
            \<lparr>signals = (signals w)
               (''PowerSupply'' \<mapsto> PyInt 1, ''EngineStart'' \<mapsto> PyInt 1,
                ''VehicleSpeed'' \<mapsto> PyInt (randint 30 35 r), ''AccPedal'' \<mapsto> PyInt 40,
                ''GearIncreaseOne'' \<mapsto> PyInt 1, ''CruiseControlSetButton'' \<mapsto> PyInt 1),
             journal = journal w @
               [INFO Banner, INFO Step1Banner,
                WRITE ''PowerSupply'' (PyInt 1), SLEEP 2,
                WRITE ''EngineStart'' (PyInt 1), SLEEP 2,
                READ ''CruiseControlActive'' (PyInt 0),
                READ ''CruiseControlEnabledSwitch'' (PyInt 0),
                READ ''CruiseControlStates'' (PyInt 0),
                READ ''CruiseControlSetSpeed'' (PyInt 0),
                INFO Step1Passed, INFO Step2Banner,
                WRITE ''VehicleSpeed'' (PyInt (randint 30 35 r)),
                WRITE ''AccPedal'' (PyInt 40), SLEEP 4,
                WRITE ''GearIncreaseOne'' (PyInt 1), SLEEP 2,
                WRITE ''CruiseControlSetButton'' (PyInt 1), SLEEP 2,
                READ ''CruiseControlActive'' (PyInt 0),
                ERROR Step2Failed]\<rparr>)"
proof -
  let ?w4 = "engine_start (power_on (logging_info Step1Banner (logging_info Banner w)))"
  let ?w5 = "?w4\<lparr>journal := journal ?w4 @
              [READ ''CruiseControlActive'' (PyInt 0),
               READ ''CruiseControlEnabledSwitch'' (PyInt 0),
               READ ''CruiseControlStates'' (PyInt 0),
               READ ''CruiseControlSetSpeed'' (PyInt 0)]\<rparr>"
  let ?w11 = "press_cc_set_button (increase_gear (press_acc_pedal 40
                (write_signal ''VehicleSpeed'' (PyInt (randint 30 35 r))
                   (logging_info Step2Banner (logging_info Step1Passed ?w5)))))"
  from assms have step1: "verify_cruise_control_inactive ?w4 = (True, ?w5)"
    by (rule verify_inactive_True)
  from assms have "fst (read_signal ''CruiseControlActive'' ?w4) = PyInt 0"
    by (simp add: fst_verify_inactive)
  then have cca: "fst (read_signal ''CruiseControlActive'' ?w11) = PyInt 0"
    by (simp add: fst_read_signal action_defs)
  have step2: "verify_cruise_control_active 35 ?w11 =
      (Inr False, ?w11\<lparr>journal := journal ?w11 @ [READ ''CruiseControlActive'' (PyInt 0)]\<rparr>)"
    using verify_active_not_active [of ?w11 35] cca by simp
  have "run_test r w = (Inr (), logging_error Step2Failed
          (?w11\<lparr>journal := journal ?w11 @ [READ ''CruiseControlActive'' (PyInt 0)]\<rparr>))"
    by (simp add: run_test_def Let_def step1 step2)
  then show ?thesis
    by (simp add: action_defs)
qed

text \<open>
  C9: from the freshly seeded store, \<open>power_on\<close> and \<open>engine_start\<close> write PowerSupply and
  EngineStart and nothing else, the four checked signals are still 0, and
  \<open>verify_cruise_control_inactive\<close> then returns \<open>True\<close>.
\<close>

theorem inactive_after_power_up:
  "fst (verify_cruise_control_inactive (engine_start (power_on BUS)))
   \<and> writes_of (journal (engine_start (power_on BUS)))
       = [(''PowerSupply'', PyInt 1), (''EngineStart'', PyInt 1)]
   \<and> signals (engine_start (power_on BUS)) ''CruiseControlActive'' = Some (PyInt 0)
   \<and> signals (engine_start (power_on BUS)) ''CruiseControlEnabledSwitch'' = Some (PyInt 0)
   \<and> signals (engine_start (power_on BUS)) ''CruiseControlStates'' = Some (PyInt 0)
   \<and> signals (engine_start (power_on BUS)) ''CruiseControlSetSpeed'' = Some (PyInt 0)"
  by (simp add: fst_verify_inactive fst_read_signal action_defs seed_defs)

text \<open>
  C3: from any store, when the baseline predicate is false after \<open>power_on\<close> and
  \<open>engine_start\<close>, \<open>run_test\<close> returns, its last log line is the Step 1 failure, the only
  writes it has made are those to PowerSupply and EngineStart, and VehicleSpeed, AccPedal,
  GearIncreaseOne and CruiseControlSetButton hold what they held before the run.
\<close>

theorem step1_failure_stops_run:
  assumes "\<not> fst (verify_cruise_control_inactive
             (engine_start (power_on (logging_info Step1Banner (logging_info Banner w)))))"
  shows "fst (run_test r w) = Inr ()
         \<and> signals (snd (run_test r w)) ''VehicleSpeed'' = signals w ''VehicleSpeed''
         \<and> signals (snd (run_test r w)) ''AccPedal'' = signals w ''AccPedal''
         \<and> signals (snd (run_test r w)) ''GearIncreaseOne'' = signals w ''GearIncreaseOne''
         \<and> signals (snd (run_test r w)) ''CruiseControlSetButton''
             = signals w ''CruiseControlSetButton''
         \<and> writes_of (journal (snd (run_test r w)))
             = writes_of (journal w) @ [(''PowerSupply'', PyInt 1), (''EngineStart'', PyInt 1)]
         \<and> last (journal (snd (run_test r w))) = ERROR Step1Failed"
  unfolding run_test_step1_failed [OF assms]
  by (simp add: signals_verify_inactive journal_verify_inactive_no_writes logging_error_def
      writes_of_append)
     (simp add: action_defs writes_of_append)

theorem step1_failure_stops_run_witness:
  "\<not> fst (verify_cruise_control_inactive
        (engine_start (power_on (logging_info Step1Banner (logging_info Banner
           (BUS\<lparr>signals := (signals BUS)(''CruiseControlActive'' \<mapsto> PyInt 1)\<rparr>))))))
   \<and> fst (run_test 3 (BUS\<lparr>signals := (signals BUS)(''CruiseControlActive'' \<mapsto> PyInt 1)\<rparr>))
       = Inr ()
   \<and> signals (snd (run_test 3
         (BUS\<lparr>signals := (signals BUS)(''CruiseControlActive'' \<mapsto> PyInt 1)\<rparr>)))
       ''VehicleSpeed'' = Some (PyInt 0)
   \<and> signals (snd (run_test 3
         (BUS\<lparr>signals := (signals BUS)(''CruiseControlActive'' \<mapsto> PyInt 1)\<rparr>)))
       ''AccPedal'' = None
   \<and> writes_of (journal (snd (run_test 3
         (BUS\<lparr>signals := (signals BUS)(''CruiseControlActive'' \<mapsto> PyInt 1)\<rparr>))))
       = [(''PowerSupply'', PyInt 1), (''EngineStart'', PyInt 1)]"
  using step1_failure_stops_run
    [of "BUS\<lparr>signals := (signals BUS)(''CruiseControlActive'' \<mapsto> PyInt 1)\<rparr>" 3]
  by (simp add: fst_verify_inactive fst_read_signal action_defs seed_defs)

text \<open>
  C10: when Step 1 passes, the rest of the run is, in this order: the two log lines, the
  write of the drawn target speed to VehicleSpeed, the write of 40 to AccPedal and its
  pause, the write to GearIncreaseOne and its pause, the write to CruiseControlSetButton
  and its pause, and only then the first read of \<open>verify_cruise_control_active\<close>. The
  drawn speed lies between 30 and 35, and VehicleSpeed holds it at the end.
\<close>

theorem step2_actions_in_order:
  assumes "fst (verify_cruise_control_inactive
             (engine_start (power_on (logging_info Step1Banner (logging_info Banner w)))))"
  shows "30 \<le> randint 30 35 r \<and> randint 30 35 r \<le> 35
         \<and> fst (run_test r w) = Inr ()
         \<and> journal (snd (run_test r w)) =
             journal (snd (verify_cruise_control_inactive
               (engine_start (power_on (logging_info Step1Banner (logging_info Banner w))))))
             @ [INFO Step1Passed, INFO Step2Banner,
                WRITE ''VehicleSpeed'' (PyInt (randint 30 35 r)),
                WRITE ''AccPedal'' (PyInt 40), SLEEP 4,
                WRITE ''GearIncreaseOne'' (PyInt 1), SLEEP 2,
                WRITE ''CruiseControlSetButton'' (PyInt 1), SLEEP 2,
                READ ''CruiseControlActive'' (PyInt 0),
                ERROR Step2Failed]
         \<and> signals (snd (run_test r w)) ''VehicleSpeed'' = Some (PyInt (randint 30 35 r))"
  unfolding run_test_step1_passed [OF assms] verify_inactive_True [OF assms]
  by (simp add: randint_30_35) (simp add: action_defs)

theorem step2_actions_in_order_witness:
  "fst (verify_cruise_control_inactive
        (engine_start (power_on (logging_info Step1Banner (logging_info Banner BUS)))))
   \<and> randint 30 35 10 = 34
   \<and> fst (run_test 10 BUS) = Inr ()
   \<and> writes_of (journal (snd (run_test 10 BUS))) =
       [(''PowerSupply'', PyInt 1), (''EngineStart'', PyInt 1), (''VehicleSpeed'', PyInt 34),
        (''AccPedal'', PyInt 40), (''GearIncreaseOne'', PyInt 1),
        (''CruiseControlSetButton'', PyInt 1)]
   \<and> signals (snd (run_test 10 BUS)) ''VehicleSpeed'' = Some (PyInt 34)"
proof -
  have pass: "fst (verify_cruise_control_inactive
        (engine_start (power_on (logging_info Step1Banner (logging_info Banner BUS)))))"
    by (simp add: fst_verify_inactive fst_read_signal action_defs seed_defs)
  have draw: "randint 30 35 10 = 34"
    by (simp add: randint_def)
  from step2_actions_in_order [OF pass, of 10] pass draw show ?thesis
    by (simp add: verify_inactive_True [OF pass] writes_of_append)
       (simp add: action_defs seed_defs)
qed

text \<open>
  C5: from the freshly seeded store and for every draw, Step 1 passes, the run returns
  after logging the Step 2 failure, the whole log is the one below (the final predicate
  stops at CruiseControlActive, which still reads 0), and none of the four signals that
  the final predicate reads has been written: they are 0 at the end.
\<close>

theorem seeded_run_fails_step2:
  "fst (verify_cruise_control_inactive
        (engine_start (power_on (logging_info Step1Banner (logging_info Banner BUS)))))
   \<and> fst (run_test r BUS) = Inr ()
   \<and> journal (snd (run_test r BUS)) =
       [INFO Banner, INFO Step1Banner,
        WRITE ''PowerSupply'' (PyInt 1), SLEEP 2,
        WRITE ''EngineStart'' (PyInt 1), SLEEP 2,
        READ ''CruiseControlActive'' (PyInt 0),
        READ ''CruiseControlEnabledSwitch'' (PyInt 0),
        READ ''CruiseControlStates'' (PyInt 0),
        READ ''CruiseControlSetSpeed'' (PyInt 0),
        INFO Step1Passed, INFO Step2Banner,
        WRITE ''VehicleSpeed'' (PyInt (randint 30 35 r)),
        WRITE ''AccPedal'' (PyInt 40), SLEEP 4,
        WRITE ''GearIncreaseOne'' (PyInt 1), SLEEP 2,
        WRITE ''CruiseControlSetButton'' (PyInt 1), SLEEP 2,
        READ ''CruiseControlActive'' (PyInt 0),
        ERROR Step2Failed]
   \<and> signals (snd (run_test r BUS)) ''CruiseControlActive'' = Some (PyInt 0)
   \<and> signals (snd (run_test r BUS)) ''CruiseControlEnabledSwitch'' = Some (PyInt 0)
   \<and> signals (snd (run_test r BUS)) ''CruiseControlStates'' = Some (PyInt 0)
   \<and> signals (snd (run_test r BUS)) ''CruiseControlSetSpeed'' = Some (PyInt 0)
   \<and> fst (verify_cruise_control_active 35 (snd (run_test r BUS))) = Inr False"
proof -
  have pass: "fst (verify_cruise_control_inactive
        (engine_start (power_on (logging_info Step1Banner (logging_info Banner BUS)))))"
    by (simp add: fst_verify_inactive fst_read_signal action_defs seed_defs)
  show ?thesis
    unfolding run_test_step1_passed [OF pass]
    by (simp add: pass fst_verify_active fst_read_signal) (simp add: seed_defs)
qed

end
